theory Spec2Isabelle
  imports Main
begin

section \<open>Values, exceptions and collaborators\<close>

text \<open>
  The two source files are \<^verbatim>\<open>listings/views.py\<close> (the booking hook and the payment
  verification view) and \<^verbatim>\<open>listings/tasks.py\<close> (the booking confirmation task).
  The view \<^verbatim>\<open>verify_payment_view\<close> is read as an ordinary function of the request: its
  body, printed at the indentation of its \<^verbatim>\<open>def\<close> line, is taken one level deeper.

  Python values that cross the boundary with the payment gateway are dynamically typed.
  They are represented by \<open>pyval\<close>; a dictionary is an association list of distinct
  keys, read with \<open>map_of\<close>. Numbers are integers: no operation of the source computes with them.
\<close>

datatype pyval =
    PNone
  | PBool bool
  | PInt int
  | PStr string
  | PList "pyval list"
  | PDict "(string \<times> pyval) list"

datatype error =
    AttributeError
  | KeyError string
  | SMTPException
  | IsADirectoryError
  | OSError

text \<open>
  \<^verbatim>\<open>obj.get(key, default)\<close>. Only a dictionary has the method; on every other value
  the attribute lookup raises \<^verbatim>\<open>AttributeError\<close>.
\<close>

fun dict_get :: "pyval \<Rightarrow> string \<Rightarrow> pyval \<Rightarrow> error + pyval" where
  "dict_get (PDict kvs) k d = Inr (case map_of kvs k of None \<Rightarrow> d | Some v \<Rightarrow> v)"
| "dict_get PNone k d = Inl AttributeError"
| "dict_get (PBool b) k d = Inl AttributeError"
| "dict_get (PInt i) k d = Inl AttributeError"
| "dict_get (PStr s) k d = Inl AttributeError"
| "dict_get (PList xs) k d = Inl AttributeError"

text \<open>
  \<^verbatim>\<open>request.GET\<close>: the query parameters, read only through \<^verbatim>\<open>.get\<close>, which
  yields \<^verbatim>\<open>None\<close> (or the given default) for a key that is not there.
\<close>

type_synonym querydict = "string \<rightharpoonup> string"

record request =
  GET :: querydict

text \<open>
  \<^verbatim>\<open>JsonResponse(data, status=...)\<close>: the dictionary that is serialised and the HTTP
  status code, 200 when none is given.
\<close>

record response =
  status_code :: nat
  body :: pyval

definition JsonResponse :: "pyval \<Rightarrow> nat \<Rightarrow> response" where
  "JsonResponse data code = \<lparr>status_code = code, body = data\<rparr>"

section \<open>Data model\<close>

text \<open>
  Modelled from the spec: \<^verbatim>\<open>listings/models.py\<close>, which declares \<^verbatim>\<open>Payment\<close>,
  \<^verbatim>\<open>Booking\<close> and the customer, is not among the sources. A Payment has an
  identifier, a \<open>booking_reference\<close> used as lookup key, a free-text \<open>status\<close> and an
  \<open>amount\<close>; a Booking has an identifier and a customer with an email. The reference
  column is optional, so that a lookup with \<^verbatim>\<open>None\<close> (SQL \<^verbatim>\<open>IS NULL\<close>) has its
  meaning. Further columns of a Payment are the extension part of the record, which
  every function below carries along.
\<close>

record payment =
  payment_id :: int
  booking_reference :: "string option"
  status :: string
  amount :: int

record customer =
  email :: string

record booking =
  id_of_booking :: int
  customer :: customer

text \<open>
  A message handed to the task queue by \<^verbatim>\<open>task.delay(args)\<close>: the task's name and its
  arguments, by value.
\<close>

datatype job =
    Send_booking_confirmation_email string int
  | Send_payment_confirmation_email string "string option" int string

text \<open>
  The state the web process acts on: the two tables (rows in primary-key order), the
  task queue, and the record of the calls made to the payment gateway.
\<close>

record 'a world =
  bookings :: "booking list"
  payments :: "'a payment_scheme list"
  queue :: "job list"
  gateway_calls :: "string option list"

text \<open>\<^verbatim>\<open>task.delay(...)\<close> appends one message to the queue and returns.\<close>

definition delay :: "job \<Rightarrow> 'a world \<Rightarrow> 'a world" where
  "delay j w = w\<lparr>queue := queue w @ [j]\<rparr>"

text \<open>
  \<^verbatim>\<open>Payment.objects.filter(booking_reference=reference).first()\<close>: the matching row of
  least primary key, or \<^verbatim>\<open>None\<close>.
\<close>

definition filter_first :: "string option \<Rightarrow> 'a payment_scheme list \<Rightarrow> 'a payment_scheme option" where
  "filter_first reference rows = find (\<lambda>p. booking_reference p = reference) rows"

text \<open>
  \<^verbatim>\<open>payment.save()\<close>: every column of the row with the instance's primary key is
  written; an instance whose key is in no row is inserted.
\<close>

definition save :: "'a payment_scheme \<Rightarrow> 'a payment_scheme list \<Rightarrow> 'a payment_scheme list" where
  "save p rows =
     (if payment_id p \<in> payment_id ` set rows
      then map (\<lambda>r. if payment_id r = payment_id p then p else r) rows
      else rows @ [p])"

section \<open>views.py\<close>

text \<open>
  \<^verbatim>\<open>BookingViewSet.perform_create(self, serializer)\<close>. The serializer class is not
  among the sources; its \<^verbatim>\<open>save()\<close> is a parameter that acts on the bookings table
  and either raises or returns the created booking.
\<close>

type_synonym serializer = "booking list \<Rightarrow> (error + booking) \<times> booking list"

definition perform_create :: "serializer \<Rightarrow> 'a world \<Rightarrow> (error + unit) \<times> 'a world" where
  "perform_create serializer w =
     (case serializer (bookings w) of
        (Inl e, bs) \<Rightarrow> (Inl e, w\<lparr>bookings := bs\<rparr>)
      | (Inr booking, bs) \<Rightarrow>
          (Inr (),
           delay (Send_booking_confirmation_email (email (customer booking)) (id_of_booking booking))
             (w\<lparr>bookings := bs\<rparr>)))"

text \<open>
  \<^verbatim>\<open>response_data.get("data", {}).get("status", "failed")\<close>.
\<close>

definition extract_status :: "pyval \<Rightarrow> error + pyval" where
  "extract_status response_data =
     (case dict_get response_data ''data'' (PDict []) of
        Inl e \<Rightarrow> Inl e
      | Inr d \<Rightarrow> dict_get d ''status'' (PStr ''failed''))"

text \<open>
  \<^verbatim>\<open>verify_payment_view(request)\<close>. The helper \<^verbatim>\<open>verify_payment\<close> of
  \<^verbatim>\<open>utils/payment_gateway.py\<close> is not among the sources: it is a parameter that maps
  the reference to the value it returns. Each call to it is recorded in
  \<open>gateway_calls\<close>.
\<close>

definition verify_payment_view ::
  "(string option \<Rightarrow> pyval) \<Rightarrow> request \<Rightarrow> 'a world \<Rightarrow> (error + response) \<times> 'a world" where
  "verify_payment_view verify_payment request w =
     (let reference = GET request ''tx_ref'';
          email' = (case GET request ''email'' of None \<Rightarrow> ''user@example.com'' | Some e \<Rightarrow> e)
      in case filter_first reference (payments w) of
           None \<Rightarrow> (Inr (JsonResponse (PDict [(''error'', PStr ''Payment not found'')]) 404), w)
         | Some payment \<Rightarrow>
             (let response_data = verify_payment reference;
                  w1 = w\<lparr>gateway_calls := gateway_calls w @ [reference]\<rparr>
              in case extract_status response_data of
                   Inl e \<Rightarrow> (Inl e, w1)
                 | Inr gw_status \<Rightarrow>
                     (let payment' = payment\<lparr>status :=
                            (if gw_status = PStr ''success'' then ''Completed'' else ''Failed'')\<rparr>;
                          w2 = w1\<lparr>payments := save payment' (payments w1)\<rparr>;
                          w3 = delay (Send_payment_confirmation_email email' reference
                                        (amount payment') (status payment')) w2
                      in (Inr (JsonResponse (PDict [(''status'', PStr (status payment'))]) 200), w3))))"

section \<open>tasks.py\<close>

text \<open>\<^verbatim>\<open>str(n)\<close> of an integer: its decimal digits, with a sign when negative.\<close>

definition digit_char :: "nat \<Rightarrow> char" where
  "digit_char d = char_of (48 + d)"

fun str_nat :: "nat \<Rightarrow> string" where
  "str_nat n = (if n < 10 then [digit_char n] else str_nat (n div 10) @ [digit_char (n mod 10)])"

definition str_int :: "int \<Rightarrow> string" where
  "str_int i = (if i < 0 then CHR ''-'' # str_nat (nat (- i)) else str_nat (nat i))"

text \<open>The arguments of one call of \<^verbatim>\<open>send_mail\<close>.\<close>

record mail =
  arg_subject :: string
  arg_message :: string
  arg_from_email :: string
  arg_recipient_list :: "string list"

text \<open>
  An entry of the file system: a regular file with its contents, or a directory.
\<close>

datatype node = File string | Directory

text \<open>
  The state a worker acts on: the calls it has made to the mail collaborator and the
  file system, by path.
\<close>

record worker =
  send_mail_calls :: "mail list"
  files :: "string \<rightharpoonup> node"

text \<open>
  What the operating system does with \<^verbatim>\<open>open(path, 'a')\<close> and the write that follows,
  on a path that is not a directory: both proceed, the open is refused (permissions, a
  missing parent directory), or the open is accepted and the write is refused (a full
  disk). It is a parameter, as the mail collaborator is.
\<close>

datatype io_verdict = Proceeds | Open_fails | Write_fails

text \<open>
  \<^verbatim>\<open>with open(path, 'a') as f: f.write(text)\<close>. Opening a directory raises
  \<^verbatim>\<open>IsADirectoryError\<close>, a refused open or write raises \<^verbatim>\<open>OSError\<close>; an accepted open
  creates the file when it is not there; the text goes to the end of the file, whole or
  not at all.
\<close>

definition append_file ::
  "(string \<Rightarrow> io_verdict) \<Rightarrow> string \<Rightarrow> string \<Rightarrow> (string \<rightharpoonup> node) \<Rightarrow>
   (error + unit) \<times> (string \<rightharpoonup> node)" where
  "append_file os path txt fs =
     (case fs path of
        Some Directory \<Rightarrow> (Inl IsADirectoryError, fs)
      | Some (File old) \<Rightarrow>
          (case os path of
             Open_fails \<Rightarrow> (Inl OSError, fs)
           | Write_fails \<Rightarrow> (Inl OSError, fs)
           | Proceeds \<Rightarrow> (Inr (), fs(path \<mapsto> File (old @ txt))))
      | None \<Rightarrow>
          (case os path of
             Open_fails \<Rightarrow> (Inl OSError, fs)
           | Write_fails \<Rightarrow> (Inl OSError, fs(path \<mapsto> File []))
           | Proceeds \<Rightarrow> (Inr (), fs(path \<mapsto> File txt))))"

definition log_path :: string where
  "log_path = ''/tmp/booking_email_log.txt''"

text \<open>
  \<^verbatim>\<open>send_booking_confirmation_email(to_email, booking_id)\<close>. The mail collaborator
  \<^verbatim>\<open>send_mail\<close> is a parameter telling, for the arguments of a call, whether it returns
  (\<open>None\<close>) or raises; \<open>os\<close> is the operating system's verdict on the log file; \<open>now\<close>
  is the text of \<^verbatim>\<open>datetime.now()\<close> at the time the log line is built. No exception is
  caught: the first one raised is the outcome.
\<close>

definition send_booking_confirmation_email ::
  "(mail \<Rightarrow> error option) \<Rightarrow> (string \<Rightarrow> io_verdict) \<Rightarrow> string \<Rightarrow> string \<Rightarrow> int \<Rightarrow> worker \<Rightarrow>
   (error + string) \<times> worker" where
  "send_booking_confirmation_email send_mail os now to_email booking_id w =
     (let subject = ''Booking Confirmation #'' @ str_int booking_id;
          message = ''Your booking with ID '' @ str_int booking_id @ '' has been confirmed!'';
          from_email = ''noreply@alxtravelapp.com'';
          m = \<lparr>arg_subject = subject, arg_message = message, arg_from_email = from_email,
               arg_recipient_list = [to_email]\<rparr>;
          w1 = w\<lparr>send_mail_calls := send_mail_calls w @ [m]\<rparr>
      in case send_mail m of
           Some e \<Rightarrow> (Inl e, w1)
         | None \<Rightarrow>
             (let log_message = now @ '' - Email sent to '' @ to_email @ '' for booking ''
                                  @ str_int booking_id @ [CHR 0x0A]
              in case append_file os log_path log_message (files w1) of
                   (Inl e, fs) \<Rightarrow> (Inl e, w1\<lparr>files := fs\<rparr>)
                 | (Inr u, fs) \<Rightarrow> (Inr (''Email sent to '' @ to_email), w1\<lparr>files := fs\<rparr>)))"

section \<open>Example inputs\<close>

text \<open>
  The concrete scenario of the specification: one Payment row with reference
  \<^verbatim>\<open>TX123\<close>, status \<^verbatim>\<open>Pending\<close> and amount 100, requests for that reference, for a
  reference no row has and without any reference, and two gateways.
\<close>

definition example_payment :: payment where
  "example_payment =
     \<lparr>payment_id = 1, booking_reference = Some ''TX123'', status = ''Pending'', amount = 100\<rparr>"

definition example_world :: "unit world" where
  "example_world = \<lparr>bookings = [], payments = [example_payment], queue = [], gateway_calls = []\<rparr>"

definition tx123_request :: request where
  "tx123_request = \<lparr>GET = [''tx_ref'' \<mapsto> ''TX123'']\<rparr>"

definition txmissing_request :: request where
  "txmissing_request = \<lparr>GET = [''tx_ref'' \<mapsto> ''TXMISSING'']\<rparr>"

definition no_tx_ref_request :: request where
  "no_tx_ref_request = \<lparr>GET = Map.empty\<rparr>"

definition success_gateway :: "string option \<Rightarrow> pyval" where
  "success_gateway reference = PDict [(''data'', PDict [(''status'', PStr ''success'')])]"

definition null_data_gateway :: "string option \<Rightarrow> pyval" where
  "null_data_gateway reference = PDict [(''status'', PStr ''failed''), (''data'', PNone)]"

text \<open>
  A created booking and a serializer that saves it, a worker with no file yet and one
  whose log path is a directory, a mail collaborator that returns and one that raises,
  an operating system that lets the log be written and one that refuses to open it, a
  Payment row without reference, and a table with a second row.
\<close>

definition example_booking :: booking where
  "example_booking = \<lparr>id_of_booking = 7, customer = \<lparr>email = ''ada@example.com''\<rparr>\<rparr>"

definition example_serializer :: serializer where
  "example_serializer bs = (Inr example_booking, bs @ [example_booking])"

definition example_worker :: worker where
  "example_worker = \<lparr>send_mail_calls = [], files = Map.empty\<rparr>"

definition directory_worker :: worker where
  "directory_worker =
     \<lparr>send_mail_calls = [], files = [''/tmp/booking_email_log.txt'' \<mapsto> Directory]\<rparr>"

definition proceeding_os :: "string \<Rightarrow> io_verdict" where
  "proceeding_os path = Proceeds"

definition refusing_os :: "string \<Rightarrow> io_verdict" where
  "refusing_os path = Open_fails"

definition working_mailer :: "mail \<Rightarrow> error option" where
  "working_mailer m = None"

definition failing_mailer :: "mail \<Rightarrow> error option" where
  "failing_mailer m = Some SMTPException"

definition example_now :: string where
  "example_now = ''2024-05-01 12:00:00.000001''"

definition null_reference_payment :: payment where
  "null_reference_payment =
     \<lparr>payment_id = 2, booking_reference = None, status = ''Pending'', amount = 5\<rparr>"

definition null_reference_world :: "unit world" where
  "null_reference_world =
     \<lparr>bookings = [], payments = [example_payment, null_reference_payment], queue = [],
      gateway_calls = []\<rparr>"

definition other_payment :: payment where
  "other_payment =
     \<lparr>payment_id = 3, booking_reference = Some ''TX999'', status = ''Pending'', amount = 42\<rparr>"

definition two_row_world :: "unit world" where
  "two_row_world =
     \<lparr>bookings = [], payments = [example_payment, other_payment], queue = [],
      gateway_calls = []\<rparr>"

lemmas example_defs =
  example_payment_def example_world_def tx123_request_def txmissing_request_def
  no_tx_ref_request_def success_gateway_def null_data_gateway_def

section \<open>The table operations\<close>

lemma filter_first_None_iff:
  "filter_first reference rows = None \<longleftrightarrow> (\<forall>p \<in> set rows. booking_reference p \<noteq> reference)"
  by (auto simp: filter_first_def find_None_iff)

lemma find_in_set: "find P rows = Some p \<Longrightarrow> p \<in> set rows \<and> P p"
  by (induction rows) (auto split: if_splits)

lemma find_map_replace:
  "find P rows = Some p \<Longrightarrow> P p' \<Longrightarrow>
   find P (map (\<lambda>r. if g r = g p then p' else r) rows) = Some p'"
  by (induction rows) (auto split: if_splits)

lemma save_member:
  "p \<in> set rows \<Longrightarrow> payment_id p' = payment_id p \<Longrightarrow>
   save p' rows = map (\<lambda>r. if payment_id r = payment_id p then p' else r) rows"
  by (auto simp: save_def)

text \<open>Saving the same instance twice is saving it once.\<close>

lemma save_idem: "save p (save p rows) = save p rows"
proof (cases "payment_id p \<in> payment_id ` set rows")
  case True
  let ?f = "\<lambda>r. if payment_id r = payment_id p then p else r"
  have "payment_id p \<in> payment_id ` set (map ?f rows)"
    using True by (auto simp: image_iff)
  moreover have "map ?f (map ?f rows) = map ?f rows"
    by simp
  ultimately show ?thesis
    using True by (simp add: save_def)
next
  case False
  then have "\<forall>r \<in> set rows. payment_id r \<noteq> payment_id p"
    by (metis imageI)
  then have "map (\<lambda>r. if payment_id r = payment_id p then p else r) rows = rows"
    by (intro map_idI) simp
  with False show ?thesis
    by (simp add: save_def)
qed

text \<open>After the found row is saved with a new status, the same lookup finds the saved row.\<close>

lemma filter_first_save:
  assumes "filter_first reference rows = Some p"
  shows "filter_first reference (save (p\<lparr>status := st\<rparr>) rows) = Some (p\<lparr>status := st\<rparr>)"
proof -
  from assms have mem: "p \<in> set rows" and ref: "booking_reference p = reference"
    using find_in_set [of "\<lambda>p. booking_reference p = reference" rows p]
    by (simp_all add: filter_first_def)
  have "save (p\<lparr>status := st\<rparr>) rows
        = map (\<lambda>r. if payment_id r = payment_id p then p\<lparr>status := st\<rparr> else r) rows"
    using mem by (simp add: save_member)
  then show ?thesis
    using assms ref
      find_map_replace [of "\<lambda>p. booking_reference p = reference" rows p "p\<lparr>status := st\<rparr>" payment_id]
    by (simp add: filter_first_def)
qed

text \<open>
  With distinct primary keys, writing the found row back with another status changes
  no other row and no other column.
\<close>

lemma distinct_key_unique:
  assumes "distinct (map f rows)" and "p \<in> set rows" and "r \<in> set rows" and "f r = f p"
  shows "r = p"
  using assms by (meson distinct_map inj_onD)

lemma status_only_frame:
  assumes "distinct (map payment_id rows)" and "p \<in> set rows"
  shows "list_all2
           (\<lambda>r r'. payment_id r' = payment_id r \<and> booking_reference r' = booking_reference r \<and>
                    amount r' = amount r \<and> payment.more r' = payment.more r \<and>
                    (r \<noteq> p \<longrightarrow> r' = r))
           rows (map (\<lambda>r. if payment_id r = payment_id p then p\<lparr>status := s\<rparr> else r) rows)"
  unfolding list_all2_map2
proof (rule list_all2_same [THEN iffD2], intro ballI)
  fix r assume "r \<in> set rows"
  then have "payment_id r = payment_id p \<Longrightarrow> r = p"
    using assms by (meson distinct_key_unique)
  then show "payment_id (if payment_id r = payment_id p then p\<lparr>status := s\<rparr> else r) = payment_id r \<and>
       booking_reference (if payment_id r = payment_id p then p\<lparr>status := s\<rparr> else r) = booking_reference r \<and>
       amount (if payment_id r = payment_id p then p\<lparr>status := s\<rparr> else r) = amount r \<and>
       payment.more (if payment_id r = payment_id p then p\<lparr>status := s\<rparr> else r) = payment.more r \<and>
       (r \<noteq> p \<longrightarrow> (if payment_id r = payment_id p then p\<lparr>status := s\<rparr> else r) = r)"
    by auto
qed

section \<open>Extraction of the gateway status\<close>

lemma dict_get_error: "dict_get v k d = Inl e \<Longrightarrow> e = AttributeError"
  by (cases v) simp_all

lemma extract_status_error: "extract_status v = Inl e \<Longrightarrow> e = AttributeError"
  by (auto simp: extract_status_def split: sum.splits dest: dict_get_error)

lemma extract_status_no_data:
  "map_of kvs ''data'' = None \<Longrightarrow> extract_status (PDict kvs) = Inr (PStr ''failed'')"
  by (simp add: extract_status_def)

lemma extract_status_data:
  "map_of kvs ''data'' = Some (PDict d) \<Longrightarrow>
   extract_status (PDict kvs) = Inr (case map_of d ''status'' of None \<Rightarrow> PStr ''failed'' | Some v \<Rightarrow> v)"
  by (simp add: extract_status_def)

section \<open>The three outcomes of the verification view\<close>

lemma view_miss:
  assumes "filter_first (GET request ''tx_ref'') (payments w) = None"
  shows "verify_payment_view verify_payment request w =
         (Inr \<lparr>status_code = 404, body = PDict [(''error'', PStr ''Payment not found'')]\<rparr>, w)"
  using assms by (simp add: verify_payment_view_def JsonResponse_def)

lemma view_raise:
  assumes "filter_first (GET request ''tx_ref'') (payments w) = Some p"
    and "extract_status (verify_payment (GET request ''tx_ref'')) = Inl e"
  shows "verify_payment_view verify_payment request w =
         (Inl e, w\<lparr>gateway_calls := gateway_calls w @ [GET request ''tx_ref'']\<rparr>)"
  using assms by (simp add: verify_payment_view_def Let_def)

lemma view_hit:
  fixes st :: pyval
  defines "new \<equiv> (if st = PStr ''success'' then ''Completed'' else ''Failed'')"
  assumes "filter_first (GET request ''tx_ref'') (payments w) = Some p"
    and "extract_status (verify_payment (GET request ''tx_ref'')) = Inr st"
  shows "verify_payment_view verify_payment request w =
         (Inr \<lparr>status_code = 200, body = PDict [(''status'', PStr new)]\<rparr>,
          w\<lparr>payments := save (p\<lparr>status := new\<rparr>) (payments w),
            queue := queue w @
              [Send_payment_confirmation_email
                 (case GET request ''email'' of None \<Rightarrow> ''user@example.com'' | Some e \<Rightarrow> e)
                 (GET request ''tx_ref'') (amount p) new],
            gateway_calls := gateway_calls w @ [GET request ''tx_ref'']\<rparr>)"
  using assms by (simp add: verify_payment_view_def Let_def JsonResponse_def delay_def)

lemma queue_after_view:
  "queue (snd (verify_payment_view verify_payment request w)) =
     queue w @
     (case filter_first (GET request ''tx_ref'') (payments w) of
        None \<Rightarrow> []
      | Some p \<Rightarrow>
          (case extract_status (verify_payment (GET request ''tx_ref'')) of
             Inl e \<Rightarrow> []
           | Inr st \<Rightarrow>
               [Send_payment_confirmation_email
                  (case GET request ''email'' of None \<Rightarrow> ''user@example.com'' | Some e \<Rightarrow> e)
                  (GET request ''tx_ref'') (amount p)
                  (if st = PStr ''success'' then ''Completed'' else ''Failed'')]))"
  by (simp add: verify_payment_view_def Let_def delay_def split: option.splits sum.splits)

lemma payments_after_view:
  assumes "filter_first (GET request ''tx_ref'') (payments w) = Some p"
  shows "payments (snd (verify_payment_view verify_payment request w)) =
         (case extract_status (verify_payment (GET request ''tx_ref'')) of
            Inl e \<Rightarrow> payments w
          | Inr st \<Rightarrow>
              map (\<lambda>r. if payment_id r = payment_id p
                        then p\<lparr>status := (if st = PStr ''success'' then ''Completed'' else ''Failed'')\<rparr>
                        else r) (payments w))"
proof (cases "extract_status (verify_payment (GET request ''tx_ref''))")
  case (Inl e)
  with view_raise [where verify_payment = verify_payment, OF assms Inl] show ?thesis
    by simp
next
  case (Inr st)
  have "p \<in> set (payments w)"
    using assms find_in_set [of "\<lambda>p. booking_reference p = GET request ''tx_ref''" "payments w" p]
    by (simp add: filter_first_def)
  then show ?thesis
    using Inr view_hit [where verify_payment = verify_payment, OF assms Inr]
    by (simp add: save_member)
qed

section \<open>Claims about the payment verification view\<close>

text \<open>
  C2. A verification request whose reference matches no Payment row is answered with
  status 404 and body \<^verbatim>\<open>{"error": "Payment not found"}\<close>, and the state is the one
  before the call: no row is changed, the gateway is not called (\<open>gateway_calls\<close> is
  the same) and no job is enqueued (\<open>queue\<close> is the same).
\<close>

theorem verify_payment_view_not_found:
  assumes "\<forall>p \<in> set (payments w). booking_reference p \<noteq> GET request ''tx_ref''"
  shows "verify_payment_view verify_payment request w =
         (Inr \<lparr>status_code = 404, body = PDict [(''error'', PStr ''Payment not found'')]\<rparr>, w)"
  using assms by (simp add: view_miss filter_first_None_iff)

theorem verify_payment_view_not_found_witness:
  "payments example_world = [example_payment] \<and>
   booking_reference example_payment \<noteq> GET txmissing_request ''tx_ref'' \<and>
   verify_payment_view success_gateway txmissing_request example_world =
     (Inr \<lparr>status_code = 404, body = PDict [(''error'', PStr ''Payment not found'')]\<rparr>, example_world) \<and>
   queue example_world = [] \<and> gateway_calls example_world = []"
  using verify_payment_view_not_found [of example_world txmissing_request success_gateway]
  by (simp add: example_defs)

text \<open>
  What the view does on every answer from which the status is extracted (a dictionary
  whose \<^verbatim>\<open>data\<close> entry is missing or is a dictionary): the new status is
  \<^verbatim>\<open>Completed\<close> exactly when the extracted status is the string \<^verbatim>\<open>success\<close> and
  \<^verbatim>\<open>Failed\<close> otherwise, the row is saved with it, the same lookup then finds the saved
  row, and the response is 200 with body \<^verbatim>\<open>{"status": <new status>}\<close>. The extracted
  status is \<^verbatim>\<open>failed\<close> when \<^verbatim>\<open>data\<close> is missing, and when \<^verbatim>\<open>data\<close> is a dictionary
  without \<^verbatim>\<open>status\<close>.
\<close>

lemma verify_payment_view_status:
  assumes "filter_first (GET request ''tx_ref'') (payments w) = Some p"
    and "extract_status (verify_payment (GET request ''tx_ref'')) = Inr st"
  shows "(let new = (if st = PStr ''success'' then ''Completed'' else ''Failed'');
              result = verify_payment_view verify_payment request w
          in fst result = Inr \<lparr>status_code = 200, body = PDict [(''status'', PStr new)]\<rparr> \<and>
             payments (snd result) = save (p\<lparr>status := new\<rparr>) (payments w) \<and>
             filter_first (GET request ''tx_ref'') (payments (snd result)) = Some (p\<lparr>status := new\<rparr>)) \<and>
         (map_of kvs ''data'' = None \<longrightarrow> extract_status (PDict kvs) = Inr (PStr ''failed'')) \<and>
         (map_of kvs ''data'' = Some (PDict d) \<longrightarrow>
            extract_status (PDict kvs) =
              Inr (case map_of d ''status'' of None \<Rightarrow> PStr ''failed'' | Some v \<Rightarrow> v))"
  using view_hit [where verify_payment = verify_payment, OF assms] filter_first_save [OF assms(1)]
  by (simp add: Let_def extract_status_no_data extract_status_data)

text \<open>
  C1. For a request whose reference matches a Payment row, the status extracted from
  the gateway's answer, \<^verbatim>\<open>failed\<close> when it is absent at any level, is to decide
  between \<^verbatim>\<open>Completed\<close> and \<^verbatim>\<open>Failed\<close>, with the row saved and the response
  \<^verbatim>\<open>{"status": <new status>}\<close>. The code misses the answer whose \<^verbatim>\<open>data\<close> entry is
  present and null, \<^verbatim>\<open>{"status": "failed", "data": null}\<close>: the default \<^verbatim>\<open>{}\<close> of the
  first \<^verbatim>\<open>.get\<close> is not used, the second \<^verbatim>\<open>.get\<close> is called on \<^verbatim>\<open>None\<close> and raises
  \<^verbatim>\<open>AttributeError\<close>. The row is found and the gateway is called, but the row keeps
  the status \<^verbatim>\<open>Pending\<close>, no response is built and nothing is enqueued.
\<close>

theorem verify_payment_view_null_data:
  "filter_first (GET tx123_request ''tx_ref'') (payments example_world) = Some example_payment \<and>
   null_data_gateway (GET tx123_request ''tx_ref'') =
     PDict [(''status'', PStr ''failed''), (''data'', PNone)] \<and>
   verify_payment_view null_data_gateway tx123_request example_world =
     (Inl AttributeError, example_world\<lparr>gateway_calls := [Some ''TX123'']\<rparr>) \<and>
   payments example_world = [example_payment] \<and>
   status example_payment = ''Pending''"
  by (simp add: example_defs verify_payment_view_def filter_first_def extract_status_def Let_def)

text \<open>
  C3, as amended. When the reference matches a Payment row and the status can be
  extracted from the gateway's answer, exactly one payment-confirmation job is added to
  the queue. Its arguments are the request's email (or the placeholder address), the
  reference, and the amount and status of the saved row, which is the row the same
  lookup now finds; its amount is the one the row had before, and the status in the
  response body is the status in the job.
\<close>

theorem verify_payment_view_enqueues:
  assumes "filter_first (GET request ''tx_ref'') (payments w) = Some p"
    and "extract_status (verify_payment (GET request ''tx_ref'')) = Inr st"
  shows "(let result = verify_payment_view verify_payment request w;
              email' = (case GET request ''email'' of None \<Rightarrow> ''user@example.com'' | Some e \<Rightarrow> e);
              row = p\<lparr>status := (if st = PStr ''success'' then ''Completed'' else ''Failed'')\<rparr>
          in filter_first (GET request ''tx_ref'') (payments (snd result)) = Some row \<and>
             amount row = amount p \<and>
             queue (snd result) = queue w @
               [Send_payment_confirmation_email email' (GET request ''tx_ref'')
                  (amount row) (status row)] \<and>
             fst result = Inr \<lparr>status_code = 200, body = PDict [(''status'', PStr (status row))]\<rparr>)"
  using view_hit [where verify_payment = verify_payment, OF assms] filter_first_save [OF assms(1)]
  by (simp add: Let_def)

theorem verify_payment_view_enqueues_witness:
  "filter_first (GET tx123_request ''tx_ref'') (payments example_world) = Some example_payment \<and>
   extract_status (success_gateway (GET tx123_request ''tx_ref'')) = Inr (PStr ''success'') \<and>
   queue (snd (verify_payment_view success_gateway tx123_request example_world)) =
     [Send_payment_confirmation_email ''user@example.com'' (Some ''TX123'') 100 ''Completed''] \<and>
   fst (verify_payment_view success_gateway tx123_request example_world) =
     Inr \<lparr>status_code = 200, body = PDict [(''status'', PStr ''Completed'')]\<rparr>"
  using verify_payment_view_enqueues
          [of tx123_request example_world example_payment success_gateway "PStr ''success''"]
  by (simp add: example_defs filter_first_def extract_status_def save_def Let_def)

text \<open>
  The claim as stated, for every request, fails on a lookup miss: the request for
  \<^verbatim>\<open>TXMISSING\<close> is answered with 404 and the queue stays empty.
\<close>

theorem verify_payment_view_enqueues_counterexample:
  "fst (verify_payment_view success_gateway txmissing_request example_world) =
     Inr \<lparr>status_code = 404, body = PDict [(''error'', PStr ''Payment not found'')]\<rparr> \<and>
   queue (snd (verify_payment_view success_gateway txmissing_request example_world)) =
     queue example_world \<and>
   queue example_world = []"
  by (simp add: example_defs verify_payment_view_def filter_first_def JsonResponse_def)

text \<open>
  Two verification calls in succession for the same request, with the same gateway:
  the second call has the same outcome as the first, and the Payment table after the
  second call is the table after the first. So the second call returns the first
  call's response whenever the first call returned one.
\<close>

lemma verify_payment_view_repeat:
  "(let first = verify_payment_view verify_payment request w;
        second = verify_payment_view verify_payment request (snd first)
    in fst second = fst first \<and> payments (snd second) = payments (snd first))"
proof (cases "filter_first (GET request ''tx_ref'') (payments w)")
  case None
  then show ?thesis
    by (simp add: view_miss Let_def)
next
  case (Some p)
  show ?thesis
  proof (cases "extract_status (verify_payment (GET request ''tx_ref''))")
    case (Inl e)
    let ?w1 = "w\<lparr>gateway_calls := gateway_calls w @ [GET request ''tx_ref'']\<rparr>"
    have first: "verify_payment_view verify_payment request w = (Inl e, ?w1)"
      using Some Inl by (rule view_raise)
    have "filter_first (GET request ''tx_ref'') (payments ?w1) = Some p"
      using Some by simp
    then have "verify_payment_view verify_payment request ?w1 =
                 (Inl e, ?w1\<lparr>gateway_calls := gateway_calls ?w1 @ [GET request ''tx_ref'']\<rparr>)"
      using Inl by (rule view_raise)
    with first show ?thesis
      by (simp add: Let_def)
  next
    case (Inr st)
    define new where "new = (if st = PStr ''success'' then ''Completed'' else ''Failed'')"
    define w1 where "w1 = snd (verify_payment_view verify_payment request w)"
    have first: "fst (verify_payment_view verify_payment request w) =
                   Inr \<lparr>status_code = 200, body = PDict [(''status'', PStr new)]\<rparr>"
      and rows1: "payments w1 = save (p\<lparr>status := new\<rparr>) (payments w)"
      using view_hit [where verify_payment = verify_payment, OF Some Inr]
      by (simp_all add: new_def w1_def)
    have "filter_first (GET request ''tx_ref'') (payments w1) = Some (p\<lparr>status := new\<rparr>)"
      using filter_first_save [OF Some] rows1 by simp
    from view_hit [where verify_payment = verify_payment, OF this Inr]
    have "fst (verify_payment_view verify_payment request w1) =
            Inr \<lparr>status_code = 200, body = PDict [(''status'', PStr new)]\<rparr>"
      and "payments (snd (verify_payment_view verify_payment request w1)) =
             save (p\<lparr>status := new\<rparr>) (payments w1)"
      by (simp_all add: new_def)
    with first rows1 show ?thesis
      by (simp add: Let_def w1_def [symmetric] save_idem)
  qed
qed

text \<open>
  C4. Verification called twice in succession on the same reference, with the gateway
  answering the same both times, is to leave the Payment's status after the second
  call as it was after the first, with no error raised. The status is stable, but with
  the answer \<^verbatim>\<open>{"status": "failed", "data": null}\<close> an error is raised: both calls end
  in \<^verbatim>\<open>AttributeError\<close> from the second \<^verbatim>\<open>.get\<close>, and the row keeps the status
  \<^verbatim>\<open>Pending\<close>.
\<close>

theorem verify_payment_view_repeat_null_data:
  "fst (verify_payment_view null_data_gateway tx123_request example_world) = Inl AttributeError \<and>
   fst (verify_payment_view null_data_gateway tx123_request
          (snd (verify_payment_view null_data_gateway tx123_request example_world))) =
     Inl AttributeError \<and>
   payments (snd (verify_payment_view null_data_gateway tx123_request example_world)) =
     [example_payment] \<and>
   payments (snd (verify_payment_view null_data_gateway tx123_request
          (snd (verify_payment_view null_data_gateway tx123_request example_world)))) =
     [example_payment] \<and>
   status example_payment = ''Pending''"
  by (simp add: example_defs verify_payment_view_def filter_first_def extract_status_def Let_def)

text \<open>
  C7. A request without the \<^verbatim>\<open>email\<close> parameter: whatever the view adds to the
  queue (nothing on a lookup miss or a raise, one job otherwise) has the recipient
  \<^verbatim>\<open>user@example.com\<close>. In the scenario with reference \<^verbatim>\<open>TX123\<close>, the row
  \<^verbatim>\<open>{booking_reference: "TX123", status: "Pending", amount: 100}\<close> and the gateway
  answer \<^verbatim>\<open>{"data": {"status": "success"}}\<close>, the row becomes \<^verbatim>\<open>Completed\<close>, the
  response is \<^verbatim>\<open>{"status": "Completed"}\<close> and the one job enqueued is
  \<^verbatim>\<open>("user@example.com", "TX123", 100, "Completed")\<close>.
\<close>

theorem verify_payment_view_default_email:
  "(GET request ''email'' = None \<longrightarrow>
      queue (snd (verify_payment_view verify_payment request w)) =
        queue w @
        (case filter_first (GET request ''tx_ref'') (payments w) of
           None \<Rightarrow> []
         | Some p \<Rightarrow>
             (case extract_status (verify_payment (GET request ''tx_ref'')) of
                Inl e \<Rightarrow> []
              | Inr st \<Rightarrow>
                  [Send_payment_confirmation_email ''user@example.com''
                     (GET request ''tx_ref'') (amount p)
                     (if st = PStr ''success'' then ''Completed'' else ''Failed'')]))) \<and>
   verify_payment_view success_gateway tx123_request example_world =
     (Inr \<lparr>status_code = 200, body = PDict [(''status'', PStr ''Completed'')]\<rparr>,
      \<lparr>bookings = [],
       payments = [\<lparr>payment_id = 1, booking_reference = Some ''TX123'',
                    status = ''Completed'', amount = 100\<rparr>],
       queue = [Send_payment_confirmation_email ''user@example.com'' (Some ''TX123'') 100
                  ''Completed''],
       gateway_calls = [Some ''TX123'']\<rparr>)"
proof -
  have "verify_payment_view success_gateway tx123_request example_world =
     (Inr \<lparr>status_code = 200, body = PDict [(''status'', PStr ''Completed'')]\<rparr>,
      \<lparr>bookings = [],
       payments = [\<lparr>payment_id = 1, booking_reference = Some ''TX123'',
                    status = ''Completed'', amount = 100\<rparr>],
       queue = [Send_payment_confirmation_email ''user@example.com'' (Some ''TX123'') 100
                  ''Completed''],
       gateway_calls = [Some ''TX123'']\<rparr>)"
    by (simp add: example_defs verify_payment_view_def filter_first_def extract_status_def
          save_def delay_def JsonResponse_def Let_def)
  then show ?thesis
    by (auto simp: queue_after_view split: option.splits sum.splits)
qed

theorem verify_payment_view_default_email_witness:
  "GET tx123_request ''email'' = None \<and>
   queue (snd (verify_payment_view success_gateway tx123_request example_world)) =
     [Send_payment_confirmation_email ''user@example.com'' (Some ''TX123'') 100 ''Completed'']"
  using verify_payment_view_default_email [of tx123_request success_gateway example_world]
  by (simp add: example_defs)

text \<open>
  C8, as amended. A request without \<^verbatim>\<open>tx_ref\<close> is not validated and raises no
  missing-key error: \<^verbatim>\<open>request.GET.get\<close> yields \<^verbatim>\<open>None\<close> and the lookup is made with
  it. When no row has an empty reference the answer is the handled 404
  \<^verbatim>\<open>{"error": "Payment not found"}\<close> with the state unchanged; when a row has one,
  the gateway is called with \<^verbatim>\<open>None\<close>.
\<close>

theorem verify_payment_view_no_tx_ref:
  assumes "GET request ''tx_ref'' = None"
  shows "fst (verify_payment_view verify_payment request w) \<noteq> Inl (KeyError k) \<and>
         ((\<forall>p \<in> set (payments w). booking_reference p \<noteq> None) \<longrightarrow>
            verify_payment_view verify_payment request w =
              (Inr \<lparr>status_code = 404, body = PDict [(''error'', PStr ''Payment not found'')]\<rparr>, w)) \<and>
         (filter_first None (payments w) = Some p \<longrightarrow>
            gateway_calls (snd (verify_payment_view verify_payment request w)) =
              gateway_calls w @ [None])"
proof (intro conjI impI)
  show "fst (verify_payment_view verify_payment request w) \<noteq> Inl (KeyError k)"
    by (auto simp: verify_payment_view_def Let_def JsonResponse_def
          split: option.splits sum.splits dest: extract_status_error)
next
  assume "\<forall>p \<in> set (payments w). booking_reference p \<noteq> None"
  then have "filter_first (GET request ''tx_ref'') (payments w) = None"
    using assms by (simp add: filter_first_None_iff)
  then show "verify_payment_view verify_payment request w =
      (Inr \<lparr>status_code = 404, body = PDict [(''error'', PStr ''Payment not found'')]\<rparr>, w)"
    by (rule view_miss)
next
  assume "filter_first None (payments w) = Some p"
  then show "gateway_calls (snd (verify_payment_view verify_payment request w)) =
      gateway_calls w @ [None]"
    using assms
    by (simp add: verify_payment_view_def Let_def delay_def split: sum.splits)
qed

theorem verify_payment_view_no_tx_ref_witness:
  "GET no_tx_ref_request ''tx_ref'' = None \<and>
   payments example_world = [example_payment] \<and>
   booking_reference example_payment \<noteq> None \<and>
   verify_payment_view success_gateway no_tx_ref_request example_world =
     (Inr \<lparr>status_code = 404, body = PDict [(''error'', PStr ''Payment not found'')]\<rparr>,
      example_world) \<and>
   filter_first None (payments null_reference_world) = Some null_reference_payment \<and>
   gateway_calls (snd (verify_payment_view success_gateway no_tx_ref_request null_reference_world))
     = [None]"
  using verify_payment_view_no_tx_ref
          [of no_tx_ref_request success_gateway example_world _ example_payment]
        verify_payment_view_no_tx_ref
          [of no_tx_ref_request success_gateway null_reference_world _ null_reference_payment]
  by (simp add: example_defs null_reference_world_def null_reference_payment_def filter_first_def)

text \<open>
  The claim as stated fails: the request without \<^verbatim>\<open>tx_ref\<close> gets a handled response,
  the 404, not an error.
\<close>

theorem verify_payment_view_no_tx_ref_counterexample:
  "GET no_tx_ref_request ''tx_ref'' = None \<and>
   verify_payment_view success_gateway no_tx_ref_request example_world =
     (Inr \<lparr>status_code = 404, body = PDict [(''error'', PStr ''Payment not found'')]\<rparr>,
      example_world)"
  by (simp add: example_defs verify_payment_view_def filter_first_def JsonResponse_def)

text \<open>
  C9. A verification call that finds a matching row changes, in the Payment table,
  only the status of that row, for every gateway answer: when the answer makes the
  extraction raise the table is the same, and otherwise the row with the found row's
  primary key becomes the found row with the new status. With distinct primary keys,
  every row keeps its identifier, booking_reference, amount and further columns, and
  every row other than the found one is unchanged.
\<close>

theorem verify_payment_view_frame:
  assumes "filter_first (GET request ''tx_ref'') (payments w) = Some p"
  shows "(let rows' = payments (snd (verify_payment_view verify_payment request w))
          in rows' =
               (case extract_status (verify_payment (GET request ''tx_ref'')) of
                  Inl e \<Rightarrow> payments w
                | Inr st \<Rightarrow>
                    map (\<lambda>r. if payment_id r = payment_id p
                              then p\<lparr>status := (if st = PStr ''success'' then ''Completed'' else ''Failed'')\<rparr>
                              else r) (payments w)) \<and>
             (distinct (map payment_id (payments w)) \<longrightarrow>
                list_all2
                  (\<lambda>r r'. payment_id r' = payment_id r \<and>
                           booking_reference r' = booking_reference r \<and>
                           amount r' = amount r \<and> payment.more r' = payment.more r \<and>
                           (r \<noteq> p \<longrightarrow> r' = r))
                  (payments w) rows'))"
proof -
  have mem: "p \<in> set (payments w)"
    using assms find_in_set [of "\<lambda>p. booking_reference p = GET request ''tx_ref''" "payments w" p]
    by (simp add: filter_first_def)
  have same: "list_all2
           (\<lambda>r r'. payment_id r' = payment_id r \<and> booking_reference r' = booking_reference r \<and>
                    amount r' = amount r \<and> payment.more r' = payment.more r \<and>
                    (r \<noteq> p \<longrightarrow> r' = r)) (payments w) (payments w)"
    by (simp add: list_all2_same)
  show ?thesis
    using payments_after_view [OF assms, of verify_payment] same
      status_only_frame [OF _ mem]
    by (simp add: Let_def split: sum.splits)
qed

theorem verify_payment_view_frame_witness:
  "filter_first (GET tx123_request ''tx_ref'') (payments two_row_world) = Some example_payment \<and>
   distinct (map payment_id (payments two_row_world)) \<and>
   payments (snd (verify_payment_view success_gateway tx123_request two_row_world)) =
     [\<lparr>payment_id = 1, booking_reference = Some ''TX123'', status = ''Completed'', amount = 100\<rparr>,
      other_payment] \<and>
   other_payment \<noteq> example_payment"
  using verify_payment_view_frame [of tx123_request two_row_world example_payment success_gateway]
  by (simp add: example_defs two_row_world_def other_payment_def filter_first_def
        extract_status_def Let_def)

section \<open>Claims about the booking hook\<close>

text \<open>
  C5. When the serializer's \<^verbatim>\<open>save()\<close> returns the created booking,
  \<^verbatim>\<open>perform_create\<close> returns normally and the state is the one \<^verbatim>\<open>save()\<close> left, with
  exactly one job added at the end of the queue:
  \<^verbatim>\<open>send_booking_confirmation_email(booking.customer.email, booking.id)\<close>. The Payment
  table and the record of gateway calls are the same.
\<close>

theorem perform_create_enqueues:
  assumes "serializer (bookings w) = (Inr booking, bs)"
  shows "perform_create serializer w =
         (Inr (), w\<lparr>bookings := bs,
                    queue := queue w @
                      [Send_booking_confirmation_email (email (customer booking))
                         (id_of_booking booking)]\<rparr>)"
  using assms by (simp add: perform_create_def delay_def)

theorem perform_create_enqueues_witness:
  "example_serializer (bookings example_world) = (Inr example_booking, [example_booking]) \<and>
   perform_create example_serializer example_world =
     (Inr (), example_world\<lparr>bookings := [example_booking],
                queue := [Send_booking_confirmation_email ''ada@example.com'' 7]\<rparr>)"
  using perform_create_enqueues [of example_serializer example_world example_booking "[example_booking]"]
  by (simp add: example_defs example_serializer_def example_booking_def)

section \<open>The booking confirmation task\<close>

text \<open>
  Once the mail call has returned, the task can still fail on the log file: the mail is
  sent, the exception of the open or the write is the outcome and no string is returned.
\<close>

lemma task_log_failure:
  assumes "send_mail
             \<lparr>arg_subject = ''Booking Confirmation #'' @ str_int booking_id,
              arg_message = ''Your booking with ID '' @ str_int booking_id @ '' has been confirmed!'',
              arg_from_email = ''noreply@alxtravelapp.com'',
              arg_recipient_list = [to_email]\<rparr> = None"
    and "files w log_path = Some Directory \<or> os log_path \<noteq> Proceeds"
  shows "\<exists>e. fst (send_booking_confirmation_email send_mail os now to_email booking_id w) = Inl e"
  using assms
  by (auto simp: send_booking_confirmation_email_def Let_def append_file_def
           split: option.splits node.splits io_verdict.splits)

lemma task_log_is_directory:
  "send_booking_confirmation_email working_mailer proceeding_os example_now ''ada@example.com'' 7
     directory_worker =
   (Inl IsADirectoryError,
    directory_worker\<lparr>send_mail_calls :=
      [\<lparr>arg_subject = ''Booking Confirmation #'' @ str_int 7,
        arg_message = ''Your booking with ID '' @ str_int 7 @ '' has been confirmed!'',
        arg_from_email = ''noreply@alxtravelapp.com'',
        arg_recipient_list = [''ada@example.com'']\<rparr>]\<rparr>)"
  by (simp add: send_booking_confirmation_email_def Let_def append_file_def log_path_def
        working_mailer_def directory_worker_def)

lemma task_log_refused:
  "fst (send_booking_confirmation_email working_mailer refusing_os example_now ''ada@example.com'' 7
          example_worker) = Inl OSError \<and>
   files (snd (send_booking_confirmation_email working_mailer refusing_os example_now
                 ''ada@example.com'' 7 example_worker)) = files example_worker"
  by (simp add: send_booking_confirmation_email_def Let_def append_file_def log_path_def
        working_mailer_def refusing_os_def example_worker_def)

section \<open>Claims about the booking confirmation task\<close>

text \<open>
  C6, as amended. Every invocation of \<^verbatim>\<open>send_booking_confirmation_email(to_email,
  booking_id)\<close> calls the mail collaborator exactly once, with subject
  \<^verbatim>\<open>Booking Confirmation #<booking_id>\<close>, message
  \<^verbatim>\<open>Your booking with ID <booking_id> has been confirmed!\<close>, sender
  \<^verbatim>\<open>noreply@alxtravelapp.com\<close> and recipient list \<^verbatim>\<open>[to_email]\<close>. When that call
  returns and the log file can be appended to (its path is not a directory and the
  operating system refuses neither the open nor the write), the text
  \<^verbatim>\<open><timestamp> - Email sent to <to_email> for booking <booking_id>\<close> with a newline is
  appended to \<^verbatim>\<open>/tmp/booking_email_log.txt\<close> (no other file changes) and the task
  returns \<^verbatim>\<open>Email sent to <to_email>\<close>.
\<close>

theorem send_booking_confirmation_email_effects:
  "(let m = \<lparr>arg_subject = ''Booking Confirmation #'' @ str_int booking_id,
              arg_message = ''Your booking with ID '' @ str_int booking_id @ '' has been confirmed!'',
              arg_from_email = ''noreply@alxtravelapp.com'',
              arg_recipient_list = [to_email]\<rparr>;
        line = now @ '' - Email sent to '' @ to_email @ '' for booking '' @ str_int booking_id
                 @ [CHR 0x0A];
        result = send_booking_confirmation_email send_mail os now to_email booking_id w
    in send_mail_calls (snd result) = send_mail_calls w @ [m] \<and>
       (send_mail m = None \<and>
        files w ''/tmp/booking_email_log.txt'' \<noteq> Some Directory \<and>
        os ''/tmp/booking_email_log.txt'' = Proceeds \<longrightarrow>
          fst result = Inr (''Email sent to '' @ to_email) \<and>
          files (snd result) =
            (files w)(''/tmp/booking_email_log.txt'' \<mapsto>
               File ((case files w ''/tmp/booking_email_log.txt'' of
                        Some (File old) \<Rightarrow> old | _ \<Rightarrow> []) @ line))))"
  by (auto simp: send_booking_confirmation_email_def Let_def append_file_def log_path_def
           split: option.splits node.splits io_verdict.splits)

theorem send_booking_confirmation_email_effects_witness:
  "working_mailer
     \<lparr>arg_subject = ''Booking Confirmation #7'',
      arg_message = ''Your booking with ID 7 has been confirmed!'',
      arg_from_email = ''noreply@alxtravelapp.com'',
      arg_recipient_list = [''ada@example.com'']\<rparr> = None \<and>
   files example_worker ''/tmp/booking_email_log.txt'' \<noteq> Some Directory \<and>
   proceeding_os ''/tmp/booking_email_log.txt'' = Proceeds \<and>
   fst (send_booking_confirmation_email working_mailer proceeding_os example_now
          ''ada@example.com'' 7 example_worker)
     = Inr ''Email sent to ada@example.com'' \<and>
   send_mail_calls
     (snd (send_booking_confirmation_email working_mailer proceeding_os example_now
             ''ada@example.com'' 7 example_worker))
     = [\<lparr>arg_subject = ''Booking Confirmation #7'',
         arg_message = ''Your booking with ID 7 has been confirmed!'',
         arg_from_email = ''noreply@alxtravelapp.com'',
         arg_recipient_list = [''ada@example.com'']\<rparr>] \<and>
   files
     (snd (send_booking_confirmation_email working_mailer proceeding_os example_now
             ''ada@example.com'' 7 example_worker))
     = [''/tmp/booking_email_log.txt'' \<mapsto>
          File (''2024-05-01 12:00:00.000001 - Email sent to ada@example.com for booking 7''
                  @ [CHR 0x0A])]"
proof -
  have s7: "str_int 7 = ''7''"
    by code_simp
  show ?thesis
    using send_booking_confirmation_email_effects
            [where booking_id = 7 and to_email = "''ada@example.com''" and now = example_now
               and send_mail = working_mailer and os = proceeding_os and w = example_worker]
    by (simp add: s7 Let_def working_mailer_def proceeding_os_def example_worker_def
          example_now_def)
qed

text \<open>
  The claim as stated, for every invocation, fails when the mail collaborator raises:
  the exception is the outcome, no string is returned and the files are the same.
\<close>

theorem send_booking_confirmation_email_effects_counterexample:
  "fst (send_booking_confirmation_email failing_mailer proceeding_os example_now
          ''ada@example.com'' 7 example_worker)
     = Inl SMTPException \<and>
   files
     (snd (send_booking_confirmation_email failing_mailer proceeding_os example_now
             ''ada@example.com'' 7 example_worker))
     = files example_worker"
  by (simp add: send_booking_confirmation_email_def Let_def failing_mailer_def)

text \<open>
  C10. When the mail collaborator raises, the task ends with that exception: no
  confirmation string is returned and the state differs from the initial one only by
  the recorded mail call, so no line is appended to the log. Whenever the files after
  the task differ from the files before, the mail call was made and returned.
\<close>

theorem send_booking_confirmation_email_raise:
  "(let m = \<lparr>arg_subject = ''Booking Confirmation #'' @ str_int booking_id,
              arg_message = ''Your booking with ID '' @ str_int booking_id @ '' has been confirmed!'',
              arg_from_email = ''noreply@alxtravelapp.com'',
              arg_recipient_list = [to_email]\<rparr>;
        result = send_booking_confirmation_email send_mail os now to_email booking_id w
    in (send_mail m = Some e \<longrightarrow>
          result = (Inl e, w\<lparr>send_mail_calls := send_mail_calls w @ [m]\<rparr>)) \<and>
       (files (snd result) \<noteq> files w \<longrightarrow>
          send_mail m = None \<and> m \<in> set (send_mail_calls (snd result))))"
  by (auto simp: send_booking_confirmation_email_def Let_def split: option.splits prod.splits sum.splits)

theorem send_booking_confirmation_email_raise_witness:
  "failing_mailer
     \<lparr>arg_subject = ''Booking Confirmation #7'',
      arg_message = ''Your booking with ID 7 has been confirmed!'',
      arg_from_email = ''noreply@alxtravelapp.com'',
      arg_recipient_list = [''ada@example.com'']\<rparr> = Some SMTPException \<and>
   send_booking_confirmation_email failing_mailer proceeding_os example_now ''ada@example.com'' 7
       example_worker
     = (Inl SMTPException,
        example_worker\<lparr>send_mail_calls :=
          [\<lparr>arg_subject = ''Booking Confirmation #7'',
            arg_message = ''Your booking with ID 7 has been confirmed!'',
            arg_from_email = ''noreply@alxtravelapp.com'',
            arg_recipient_list = [''ada@example.com'']\<rparr>]\<rparr>) \<and>
   files (snd (send_booking_confirmation_email working_mailer proceeding_os example_now
                 ''ada@example.com'' 7 example_worker)) \<noteq> files example_worker \<and>
   working_mailer
     \<lparr>arg_subject = ''Booking Confirmation #7'',
      arg_message = ''Your booking with ID 7 has been confirmed!'',
      arg_from_email = ''noreply@alxtravelapp.com'',
      arg_recipient_list = [''ada@example.com'']\<rparr> = None"
proof -
  have s7: "str_int 7 = ''7''"
    by code_simp
  have changed:
    "files (snd (send_booking_confirmation_email working_mailer proceeding_os example_now
                   ''ada@example.com'' 7 example_worker)) \<noteq> files example_worker"
    by (simp add: send_booking_confirmation_email_def Let_def working_mailer_def
          proceeding_os_def example_worker_def append_file_def log_path_def)
  show ?thesis
    using changed
      send_booking_confirmation_email_raise
        [where booking_id = 7 and to_email = "''ada@example.com''" and now = example_now
           and send_mail = failing_mailer and os = proceeding_os and w = example_worker
           and e = SMTPException]
      send_booking_confirmation_email_raise
        [where booking_id = 7 and to_email = "''ada@example.com''" and now = example_now
           and send_mail = working_mailer and os = proceeding_os and w = example_worker
           and e = SMTPException]
    by (simp add: s7 Let_def failing_mailer_def working_mailer_def example_worker_def)
qed

end
